theory Spec2Isabelle
  imports Main
begin

section \<open>The session store of www.minsol.kr (store/auth.store.ts)\<close>

subsection \<open>Types\<close>

text \<open>
  The \<^verbatim>\<open>User\<close> interface. Optional fields (\<^verbatim>\<open>email?: string\<close>) are options; the
  \<^verbatim>\<open>provider\<close> union of three string literals is a datatype. Strings are byte lists; the
  only property of a string the store ever inspects is whether it is empty (JavaScript
  truthiness), which no encoding changes.
\<close>

datatype provider = google | kakao | naver

record User =
  id_user :: string
  email :: "string option"
  nickname :: "string option"
  profileImage :: "string option"
  provider :: provider

text \<open>The \<^verbatim>\<open>AuthState\<close> interface; \<^verbatim>\<open>null\<close> is \<open>None\<close>.\<close>

record AuthState =
  accessToken :: "string option"
  user :: "User option"
  isAuthenticated :: bool
  isLoading :: bool
  error :: "string option"

definition initialState :: AuthState where
  "initialState =
     \<lparr>accessToken = None, user = None, isAuthenticated = False, isLoading = False,
      error = None\<rparr>"

subsection \<open>The world outside the store\<close>

text \<open>
  A value that is thrown, or that a promise is rejected with: an instance of \<^verbatim>\<open>Error\<close>
  with its message, or any other value. The two \<^verbatim>\<open>catch\<close> blocks distinguish exactly
  these (\<^verbatim>\<open>error instanceof Error ? error.message : ...\<close>).
\<close>

datatype thrown = ErrorObject string | OtherValue

text \<open>
  What \<^verbatim>\<open>await response.json()\<close> gives for the refresh endpoint, as far as the store looks
  at it: the JSON value \<^verbatim>\<open>null\<close>, or any other value together with its
  \<^verbatim>\<open>accessToken\<close> property (\<open>None\<close> when the property is missing, \<^verbatim>\<open>null\<close> or
  \<^verbatim>\<open>undefined\<close>). The endpoint's contract is \<^verbatim>\<open>{ accessToken: string }\<close>, so a property
  that is present is a string.
\<close>

datatype json_data = JNull | JValue "string option"

text \<open>
  A \<^verbatim>\<open>Response\<close>: its status code and the outcome of reading its body as JSON (which
  rejects when the body is not JSON). \<^verbatim>\<open>response.ok\<close> is, by the Fetch standard, a status
  in the range 200 to 299.
\<close>

record response =
  status :: nat
  json :: "thrown + json_data"

definition ok :: "response \<Rightarrow> bool" where
  "ok r = (200 \<le> status r \<and> status r \<le> 299)"

text \<open>The requests the store sends, with the bearer token of the validation request.\<close>

datatype request = PostLogout | PostRefresh | PostValidate string

text \<open>
  The remote authority and the JavaScript engine, as the store meets them: how the
  refresh request settles, how a validation request carrying a given bearer token settles
  (\<open>Inl\<close>: \<^verbatim>\<open>fetch\<close> rejects, on a network error or because it refuses the request, as
  it does for a token that is not a legal header value), and the message of the
  \<^verbatim>\<open>TypeError\<close> the engine throws when a property of \<^verbatim>\<open>null\<close> is read.
\<close>

record remote =
  refresh_reply :: "thrown + response"
  validate_reply :: "string \<Rightarrow> thrown + response"
  null_read_message :: string

text \<open>
  The store's state together with the log of the requests made with \<^verbatim>\<open>fetch\<close> so far,
  oldest first.
\<close>

record world =
  store :: AuthState
  requests :: "request list"

subsection \<open>Computations that may throw\<close>

text \<open>
  An operation of the store runs on the world and either returns a value (\<open>Inr\<close>) or
  throws (\<open>Inl\<close>; for an \<^verbatim>\<open>async\<close> function: its promise is rejected). The changes made
  to the world before a throw stay.
\<close>

type_synonym 'a js = "world \<Rightarrow> (thrown + 'a) \<times> world"

definition returns :: "'a \<Rightarrow> 'a js" where
  "returns x w = (Inr x, w)"

definition throw :: "thrown \<Rightarrow> 'a js" where
  "throw t w = (Inl t, w)"

definition and_then :: "'a js \<Rightarrow> ('a \<Rightarrow> 'b js) \<Rightarrow> 'b js" where
  "and_then m f w = (case m w of (Inl t, w') \<Rightarrow> (Inl t, w') | (Inr x, w') \<Rightarrow> f x w')"

definition try_catch :: "'a js \<Rightarrow> (thrown \<Rightarrow> 'a js) \<Rightarrow> 'a js" where
  "try_catch m h w = (case m w of (Inl t, w') \<Rightarrow> h t w' | (Inr x, w') \<Rightarrow> (Inr x, w'))"

text \<open>
  zustand's \<^verbatim>\<open>set(partial, false, name)\<close> merges the given fields into the state; the
  partial state is the update function.
\<close>

definition set_state :: "(AuthState \<Rightarrow> AuthState) \<Rightarrow> unit js" where
  "set_state f w = (Inr (), w\<lparr>store := f (store w)\<rparr>)"

definition get_state :: "AuthState js" where
  "get_state w = (Inr (store w), w)"

text \<open>\<^verbatim>\<open>await fetch(...)\<close>: the request is sent, and settles as the remote side decides.\<close>

definition fetch :: "request \<Rightarrow> (thrown + response) \<Rightarrow> response js" where
  "fetch rq reply w =
     (case reply of
        Inl t \<Rightarrow> (Inl t, w\<lparr>requests := requests w @ [rq]\<rparr>)
      | Inr r \<Rightarrow> (Inr r, w\<lparr>requests := requests w @ [rq]\<rparr>))"

text \<open>
  \<^verbatim>\<open>fetch(...).catch(handler)\<close> with no \<^verbatim>\<open>await\<close>: the request is sent and the caller goes
  on; however it settles, nothing is thrown here.
\<close>

definition fetch_unawaited :: "request \<Rightarrow> unit js" where
  "fetch_unawaited rq w = (Inr (), w\<lparr>requests := requests w @ [rq]\<rparr>)"

text \<open>JavaScript truthiness of a string: the empty string is falsy.\<close>

definition truthy :: "string \<Rightarrow> bool" where
  "truthy s = (s \<noteq> [])"

text \<open>The three message literals of the source, as UTF-8.\<close>

definition msg_refresh_failed :: string where
  "msg_refresh_failed =
     [CHR 0xED, CHR 0x86, CHR 0xA0, CHR 0xED, CHR 0x81, CHR 0xB0, CHR 0x20, CHR 0xEA,
      CHR 0xB0, CHR 0xB1, CHR 0xEC, CHR 0x8B, CHR 0xA0, CHR 0x20, CHR 0xEC, CHR 0x8B,
      CHR 0xA4, CHR 0xED, CHR 0x8C, CHR 0xA8]"

definition msg_no_token :: string where
  "msg_no_token =
     ''Access Token'' @
     [CHR 0xEC, CHR 0x9D, CHR 0xB4, CHR 0x20, CHR 0xEC, CHR 0x9D, CHR 0x91, CHR 0xEB,
      CHR 0x8B, CHR 0xB5, CHR 0xEC, CHR 0x97, CHR 0x90, CHR 0x20, CHR 0xEC, CHR 0x97,
      CHR 0x86, CHR 0xEC, CHR 0x8A, CHR 0xB5, CHR 0xEB, CHR 0x8B, CHR 0x88, CHR 0xEB,
      CHR 0x8B, CHR 0xA4]"

definition msg_validate_failed :: string where
  "msg_validate_failed =
     [CHR 0xED, CHR 0x86, CHR 0xA0, CHR 0xED, CHR 0x81, CHR 0xB0, CHR 0x20, CHR 0xEA,
      CHR 0xB2, CHR 0x80, CHR 0xEC, CHR 0xA6, CHR 0x9D, CHR 0x20, CHR 0xEC, CHR 0x8B,
      CHR 0xA4, CHR 0xED, CHR 0x8C, CHR 0xA8]"

text \<open>\<^verbatim>\<open>error instanceof Error ? error.message : fallback\<close>\<close>

fun message_of :: "thrown \<Rightarrow> string \<Rightarrow> string" where
  "message_of (ErrorObject m) fallback = m"
| "message_of OtherValue fallback = fallback"

subsection \<open>Sync actions\<close>

definition setAccessToken :: "string \<Rightarrow> unit js" where
  "setAccessToken token =
     set_state (\<lambda>s. s\<lparr>accessToken := Some token, isAuthenticated := truthy token,
                        error := None\<rparr>)"

definition setUser :: "User \<Rightarrow> unit js" where
  "setUser u = set_state (\<lambda>s. s\<lparr>user := Some u, error := None\<rparr>)"

definition login :: "string \<Rightarrow> User \<Rightarrow> unit js" where
  "login token u =
     set_state (\<lambda>s. s\<lparr>accessToken := Some token, user := Some u, isAuthenticated := True,
                        isLoading := False, error := None\<rparr>)"

text \<open>
  \<^verbatim>\<open>logout\<close> sends the request without awaiting it; a rejection goes to the
  \<^verbatim>\<open>.catch\<close> handler, which only logs. Whatever the remote side does, the state is reset.
\<close>

definition logout :: "unit js" where
  "logout =
     and_then (fetch_unawaited PostLogout)
       (\<lambda>_. set_state (\<lambda>s. s\<lparr>accessToken := accessToken initialState,
                               user := user initialState,
                               isAuthenticated := isAuthenticated initialState,
                               isLoading := isLoading initialState,
                               error := error initialState\<rparr>))"

definition clearError :: "unit js" where
  "clearError = set_state (\<lambda>s. s\<lparr>error := None\<rparr>)"

definition setError :: "string \<Rightarrow> unit js" where
  "setError e = set_state (\<lambda>s. s\<lparr>error := Some e, isLoading := False\<rparr>)"

definition setLoading :: "bool \<Rightarrow> unit js" where
  "setLoading b = set_state (\<lambda>s. s\<lparr>isLoading := b\<rparr>)"

subsection \<open>Async actions\<close>

text \<open>The \<^verbatim>\<open>try\<close> block of \<^verbatim>\<open>refreshAccessToken\<close>.\<close>

definition refresh_try :: "remote \<Rightarrow> bool js" where
  "refresh_try env =
     and_then (set_state (\<lambda>s. s\<lparr>isLoading := True, error := None\<rparr>)) (\<lambda>_.
     and_then (fetch PostRefresh (refresh_reply env)) (\<lambda>response.
     if \<not> ok response then throw (ErrorObject msg_refresh_failed)
     else
       (case json response of
          Inl t \<Rightarrow> throw t
        | Inr JNull \<Rightarrow> throw (ErrorObject (null_read_message env))
        | Inr (JValue None) \<Rightarrow> throw (ErrorObject msg_no_token)
        | Inr (JValue (Some token)) \<Rightarrow>
            if truthy token then
              and_then
                (set_state (\<lambda>s. s\<lparr>accessToken := Some token, isAuthenticated := True,
                                    isLoading := False, error := None\<rparr>))
                (\<lambda>_. returns True)
            else throw (ErrorObject msg_no_token))))"

text \<open>Its \<^verbatim>\<open>catch\<close> block.\<close>

definition refresh_catch :: "thrown \<Rightarrow> bool js" where
  "refresh_catch e =
     and_then
       (set_state (\<lambda>s. s\<lparr>accessToken := None, isAuthenticated := False, isLoading := False,
                           error := Some (message_of e msg_refresh_failed)\<rparr>))
       (\<lambda>_. returns False)"

definition refreshAccessToken :: "remote \<Rightarrow> bool js" where
  "refreshAccessToken env = try_catch (refresh_try env) refresh_catch"

text \<open>
  \<^verbatim>\<open>validateToken\<close>. The token is read once, before the \<^verbatim>\<open>try\<close>; \<^verbatim>\<open>!accessToken\<close> holds
  for \<^verbatim>\<open>null\<close> and for the empty string. The \<^verbatim>\<open>return await refreshAccessToken()\<close> of
  the 401 branch is inside the \<^verbatim>\<open>try\<close>, the one of the \<^verbatim>\<open>catch\<close> block is not.
\<close>

definition validate_try :: "remote \<Rightarrow> string \<Rightarrow> bool js" where
  "validate_try env token =
     and_then (set_state (\<lambda>s. s\<lparr>isLoading := True\<rparr>)) (\<lambda>_.
     and_then (fetch (PostValidate token) (validate_reply env token)) (\<lambda>response.
     if ok response then
       and_then (set_state (\<lambda>s. s\<lparr>isLoading := False\<rparr>)) (\<lambda>_. returns True)
     else if status response = 401 then refreshAccessToken env
     else throw (ErrorObject msg_validate_failed)))"

definition validate_catch :: "remote \<Rightarrow> thrown \<Rightarrow> bool js" where
  "validate_catch env e =
     and_then
       (set_state (\<lambda>s. s\<lparr>isLoading := False,
                           error := Some (message_of e msg_validate_failed)\<rparr>))
       (\<lambda>_. refreshAccessToken env)"

definition validateToken :: "remote \<Rightarrow> bool js" where
  "validateToken env =
     and_then get_state (\<lambda>s.
       case accessToken s of
         None \<Rightarrow> refreshAccessToken env
       | Some token \<Rightarrow>
           if \<not> truthy token then refreshAccessToken env
           else try_catch (validate_try env token) (validate_catch env))"

text \<open>The state an operation leaves, and what it returns.\<close>

definition state_after :: "'a js \<Rightarrow> world \<Rightarrow> AuthState" where
  "state_after m w = store (snd (m w))"

definition result_of :: "'a js \<Rightarrow> world \<Rightarrow> thrown + 'a" where
  "result_of m w = fst (m w)"

definition sent_by :: "'a js \<Rightarrow> world \<Rightarrow> request list" where
  "sent_by m w = drop (length (requests w)) (requests (snd (m w)))"

text \<open>One operation after another, as two calls in a row.\<close>

definition seq :: "'a js \<Rightarrow> 'b js \<Rightarrow> 'b js" where
  "seq m n = and_then m (\<lambda>_. n)"

subsection \<open>The store as a state machine\<close>

text \<open>The operations of \<^verbatim>\<open>AuthActions\<close>, and the store running one of them to its end.\<close>

datatype action =
    SetAccessToken string | SetUser User | Login string User | Logout | ClearError
  | SetError string | SetLoading bool | RefreshAccessToken | ValidateToken

fun perform :: "remote \<Rightarrow> action \<Rightarrow> world \<Rightarrow> world" where
  "perform env (SetAccessToken token) w = snd (setAccessToken token w)"
| "perform env (SetUser u) w = snd (setUser u w)"
| "perform env (Login token u) w = snd (login token u w)"
| "perform env Logout w = snd (logout w)"
| "perform env ClearError w = snd (clearError w)"
| "perform env (SetError e) w = snd (setError e w)"
| "perform env (SetLoading b) w = snd (setLoading b w)"
| "perform env RefreshAccessToken w = snd (refreshAccessToken env w)"
| "perform env ValidateToken w = snd (validateToken env w)"

text \<open>A run of operations from a starting world, each against the remote side of its time.\<close>

fun run_actions :: "(remote \<times> action) list \<Rightarrow> world \<Rightarrow> world" where
  "run_actions [] w = w"
| "run_actions ((env, a) # rest) w = run_actions rest (perform env a w)"

text \<open>The invariant of the data model: authenticated only while a token is held.\<close>

definition token_invariant :: "AuthState \<Rightarrow> bool" where
  "token_invariant s = (isAuthenticated s \<longrightarrow> accessToken s \<noteq> None)"

subsection \<open>Outcomes of refresh and validation\<close>

text \<open>
  \<^verbatim>\<open>validateToken\<close> ends in its \<^verbatim>\<open>response.ok\<close> branch exactly when the token it read is
  truthy and the validate endpoint answers that token with a success status.
\<close>

definition validation_succeeds :: "remote \<Rightarrow> AuthState \<Rightarrow> bool" where
  "validation_succeeds env s =
     (case accessToken s of
        None \<Rightarrow> False
      | Some token \<Rightarrow>
          truthy token \<and> (case validate_reply env token of Inl _ \<Rightarrow> False | Inr r \<Rightarrow> ok r))"

text \<open>
  \<^verbatim>\<open>refreshAccessToken\<close> reaches its \<^verbatim>\<open>return true\<close> exactly when the refresh endpoint
  answers with a success status and a JSON body whose \<^verbatim>\<open>accessToken\<close> is truthy; that
  token is the one it stores.
\<close>

definition refresh_delivers :: "remote \<Rightarrow> string \<Rightarrow> bool" where
  "refresh_delivers env token =
     (case refresh_reply env of
        Inl _ \<Rightarrow> False
      | Inr r \<Rightarrow> ok r \<and> json r = Inr (JValue (Some token)) \<and> truthy token)"

text \<open>
  The session after a refresh that succeeded with the given token, after a refresh that
  failed with the given message, and the empty session carrying a message.
\<close>

definition session_restored :: "AuthState \<Rightarrow> string \<Rightarrow> AuthState" where
  "session_restored s token =
     s\<lparr>accessToken := Some token, isAuthenticated := True, isLoading := False, error := None\<rparr>"

definition session_cleared :: "AuthState \<Rightarrow> string \<Rightarrow> AuthState" where
  "session_cleared s msg =
     s\<lparr>accessToken := None, isAuthenticated := False, isLoading := False, error := Some msg\<rparr>"

definition session_reset :: "string \<Rightarrow> AuthState" where
  "session_reset msg = initialState\<lparr>error := Some msg\<rparr>"

section \<open>The auto-refresh scheduler (store/auth-provider.tsx)\<close>

text \<open>
  The browser's interval timers: the next handle to hand out, and the intervals that are
  set, each with its handle and its period in milliseconds. The provider is the
  only part of the application that calls \<^verbatim>\<open>setInterval\<close>.
\<close>

record timer_table =
  next_handle :: nat
  active :: "(nat \<times> nat) list"

text \<open>\<^verbatim>\<open>setInterval(callback, period)\<close> registers an interval and returns its handle.\<close>

definition setInterval :: "nat \<Rightarrow> timer_table \<Rightarrow> nat \<times> timer_table" where
  "setInterval period tm =
     (next_handle tm,
      tm\<lparr>next_handle := Suc (next_handle tm),
         active := active tm @ [(next_handle tm, period)]\<rparr>)"

text \<open>\<^verbatim>\<open>clearInterval(handle)\<close> removes the interval; an unknown handle is ignored.\<close>

definition clearInterval :: "nat \<Rightarrow> timer_table \<Rightarrow> timer_table" where
  "clearInterval h tm = tm\<lparr>active := filter (\<lambda>(h', period). h' \<noteq> h) (active tm)\<rparr>"

text \<open>Who called \<^verbatim>\<open>validateToken()\<close>: the first effect, or the callback of the interval.\<close>

datatype origin = FromEffect | FromTimer

text \<open>
  The application as the provider sees it: the store, the timers, and what React keeps for
  the mounted \<^verbatim>\<open>AuthProvider\<close>: whether it is mounted, the \<^verbatim>\<open>isAuthenticated\<close> its effects last
  ran with (the dependency that can change; \<^verbatim>\<open>validateToken\<close> is the same function for the
  life of the store), and the interval its second effect's cleanup will clear. The
  \<^verbatim>\<open>validateToken()\<close> calls the provider makes are logged.
\<close>

record system =
  session :: world
  timers :: timer_table
  mounted :: bool
  rendered :: "bool option"
  cleanup :: "nat option"
  calls :: "origin list"

text \<open>\<^verbatim>\<open>50 * 60 * 1000\<close>: fifty minutes.\<close>

definition interval_ms :: nat where
  "interval_ms = 50 * 60 * 1000"

text \<open>
  A call of \<^verbatim>\<open>validateToken()\<close> by the provider. The call is run to its end before
  anything else happens; its promise is not awaited and never rejects.
\<close>

definition call_validateToken :: "remote \<Rightarrow> origin \<Rightarrow> system \<Rightarrow> system" where
  "call_validateToken env who sys =
     sys\<lparr>calls := calls sys @ [who], session := snd (validateToken env (session sys))\<rparr>"

text \<open>The first effect: \<^verbatim>\<open>if (isAuthenticated) { validateToken(); }\<close>. It has no cleanup.\<close>

definition effect_validate :: "remote \<Rightarrow> bool \<Rightarrow> system \<Rightarrow> system" where
  "effect_validate env isAuth sys =
     (if isAuth then call_validateToken env FromEffect sys else sys)"

text \<open>
  The second effect: it returns at once when not authenticated (no cleanup); otherwise it
  sets the interval, and its cleanup clears that interval.
\<close>

definition effect_interval :: "bool \<Rightarrow> system \<Rightarrow> system" where
  "effect_interval isAuth sys =
     (if \<not> isAuth then sys\<lparr>cleanup := None\<rparr>
      else
        (case setInterval interval_ms (timers sys) of
           (interval, tm) \<Rightarrow> sys\<lparr>timers := tm, cleanup := Some interval\<rparr>))"

text \<open>The callback of the interval: \<^verbatim>\<open>() => { validateToken(); }\<close>.\<close>

definition interval_callback :: "remote \<Rightarrow> system \<Rightarrow> system" where
  "interval_callback env sys = call_validateToken env FromTimer sys"

text \<open>The cleanup the second effect returned, \<^verbatim>\<open>() => clearInterval(interval)\<close>, if any.\<close>

definition run_cleanup :: "system \<Rightarrow> system" where
  "run_cleanup sys =
     (case cleanup sys of
        None \<Rightarrow> sys
      | Some interval \<Rightarrow>
          sys\<lparr>timers := clearInterval interval (timers sys), cleanup := None\<rparr>)"

text \<open>
  React's contract for \<^verbatim>\<open>useEffect\<close>: after a render whose dependencies differ from those
  of the last run (or after the first render), the cleanups of the last run are called,
  then the effects in order. The two effects of the provider have the same dependencies,
  \<^verbatim>\<open>[isAuthenticated, validateToken]\<close>, so they run together.
\<close>

definition commit :: "remote \<Rightarrow> bool \<Rightarrow> system \<Rightarrow> system" where
  "commit env isAuth sys =
     (if rendered sys = Some isAuth then sys
      else (effect_interval isAuth (effect_validate env isAuth (run_cleanup sys)))
             \<lparr>rendered := Some isAuth\<rparr>)"

text \<open>A render of the mounted provider reads \<^verbatim>\<open>isAuthenticated\<close> from the store.\<close>

definition render :: "remote \<Rightarrow> system \<Rightarrow> system" where
  "render env sys =
     (if mounted sys then commit env (isAuthenticated (store (session sys))) sys else sys)"

text \<open>
  A change of the store renders the subscribed provider again; the \<^verbatim>\<open>validateToken()\<close> of
  the first effect may change the store in turn. Two rounds reach a state that a further
  render leaves alone (lemma \<open>rerender_invariant\<close>).
\<close>

definition rerender :: "remote \<Rightarrow> system \<Rightarrow> system" where
  "rerender env sys = render env (render env sys)"

text \<open>Mounting renders for the first time; unmounting calls the cleanups.\<close>

definition mount :: "remote \<Rightarrow> system \<Rightarrow> system" where
  "mount env sys =
     (if mounted sys then sys
      else rerender env (sys\<lparr>mounted := True, rendered := None, cleanup := None\<rparr>))"

definition unmount :: "system \<Rightarrow> system" where
  "unmount sys =
     (if mounted sys then (run_cleanup sys)\<lparr>mounted := False, rendered := None\<rparr> else sys)"

text \<open>
  What can happen: the provider mounts or unmounts, some part of the application calls an
  operation of the store, or the period of the interval with the given handle elapses
  (nothing is called when that interval is not set).
\<close>

datatype event = Mount | Unmount | Act action | Tick nat

fun step :: "remote \<Rightarrow> event \<Rightarrow> system \<Rightarrow> system" where
  "step env Mount sys = mount env sys"
| "step env Unmount sys = unmount sys"
| "step env (Act a) sys = rerender env (sys\<lparr>session := perform env a (session sys)\<rparr>)"
| "step env (Tick h) sys =
     (if h \<in> set (map fst (active (timers sys))) then rerender env (interval_callback env sys)
      else sys)"

fun run_events :: "(remote \<times> event) list \<Rightarrow> system \<Rightarrow> system" where
  "run_events [] sys = sys"
| "run_events ((env, e) # rest) sys = run_events rest (step env e sys)"

text \<open>The application starts with the session the persistence layer restored, nothing mounted.\<close>

definition boot :: "AuthState \<Rightarrow> system" where
  "boot s =
     \<lparr>session = \<lparr>store = s, requests = []\<rparr>, timers = \<lparr>next_handle = 0, active = []\<rparr>,
      mounted = False, rendered = None, cleanup = None, calls = []\<rparr>"

text \<open>
  The interval that is set is exactly the one the pending cleanup will clear, and there is
  one exactly when the effects last ran authenticated.
\<close>

definition timers_match :: "system \<Rightarrow> bool" where
  "timers_match sys =
     (((cleanup sys \<noteq> None) = (rendered sys = Some True))
      \<and> active (timers sys) = (case cleanup sys of None \<Rightarrow> [] | Some h \<Rightarrow> [(h, interval_ms)])
      \<and> (\<not> mounted sys \<longrightarrow> rendered sys = None))"

text \<open>Between events, the effects have run with the \<^verbatim>\<open>isAuthenticated\<close> of the store.\<close>

definition scheduler_invariant :: "system \<Rightarrow> bool" where
  "scheduler_invariant sys =
     (timers_match sys
      \<and> (mounted sys \<longrightarrow> rendered sys = Some (isAuthenticated (store (session sys)))))"

section \<open>Sample runs\<close>

subsection \<open>Sample sessions and remote sides\<close>

definition user_example :: User where
  "user_example =
     \<lparr>id_user = ''u1'', email = Some ''minsol@example.com'', nickname = None,
      profileImage = None, provider = google\<rparr>"

definition world_empty :: world where
  "world_empty = \<lparr>store = initialState, requests = []\<rparr>"

text \<open>The session right after the login callback has called \<^verbatim>\<open>login(token, user)\<close>.\<close>

definition world_logged_in :: "string \<Rightarrow> world" where
  "world_logged_in token = snd (login token user_example world_empty)"

definition response_token :: "string \<Rightarrow> response" where
  "response_token token = \<lparr>status = 200, json = Inr (JValue (Some token))\<rparr>"

definition response_status :: "nat \<Rightarrow> response" where
  "response_status n = \<lparr>status = n, json = Inr (JValue None)\<rparr>"

definition network_error :: thrown where
  "network_error = ErrorObject ''Failed to fetch''"

text \<open>No network: every request is rejected.\<close>

definition remote_offline :: remote where
  "remote_offline =
     \<lparr>refresh_reply = Inl network_error, validate_reply = (\<lambda>_. Inl network_error),
      null_read_message = ''Cannot read properties of null''\<rparr>"

text \<open>Every access token has expired, and the refresh cookie is good for a new one.\<close>

definition remote_expired :: remote where
  "remote_expired =
     \<lparr>refresh_reply = Inr (response_token ''xyz''),
      validate_reply = (\<lambda>_. Inr (response_status 401)),
      null_read_message = ''Cannot read properties of null''\<rparr>"

text \<open>Every access token validates; the refresh endpoint cannot be reached.\<close>

definition remote_valid :: remote where
  "remote_valid =
     \<lparr>refresh_reply = Inl network_error,
      validate_reply = (\<lambda>_. Inr (response_status 200)),
      null_read_message = ''Cannot read properties of null''\<rparr>"

text \<open>Timer ticks, as events.\<close>

definition ticks :: "(remote \<times> nat) list \<Rightarrow> (remote \<times> event) list" where
  "ticks hs = map (\<lambda>(env, h). (env, Tick h)) hs"

text \<open>The provider mounts on the empty session and the user signs in; then signs out.\<close>

definition events_sign_in :: "(remote \<times> event) list" where
  "events_sign_in = [(remote_valid, Mount), (remote_valid, Act (Login ''abc'' user_example))]"

definition events_sign_in_out :: "(remote \<times> event) list" where
  "events_sign_in_out = events_sign_in @ [(remote_valid, Act Logout)]"

section \<open>Properties of the store\<close>

lemmas js_defs =
  returns_def throw_def and_then_def try_catch_def set_state_def get_state_def fetch_def
  fetch_unawaited_def   state_after_def result_of_def sent_by_def seq_def

lemmas store_defs =
  setAccessToken_def setUser_def login_def logout_def clearError_def setError_def
  setLoading_def refresh_try_def refresh_catch_def refreshAccessToken_def
  validate_try_def validate_catch_def validateToken_def ok_def truthy_def initialState_def

lemmas example_defs =
  user_example_def world_empty_def world_logged_in_def response_token_def
  response_status_def network_error_def remote_offline_def remote_expired_def
  remote_valid_def

subsection \<open>What a refresh can do\<close>

text \<open>
  A refresh sends one request and ends in one of two ways: the token of the response is
  stored and \<open>True\<close> returned, or the token is cleared, a message recorded and \<open>False\<close>
  returned. Every other field is left as it was.
\<close>

lemma refresh_cases:
  "(\<exists>token r. refresh_reply env = Inr r \<and> ok r \<and> json r = Inr (JValue (Some token))
      \<and> truthy token
      \<and> refreshAccessToken env w =
          (Inr True,
           \<lparr>store = (store w)\<lparr>accessToken := Some token, isAuthenticated := True,
                               isLoading := False, error := None\<rparr>,
            requests = requests w @ [PostRefresh]\<rparr>))
   \<or> (\<exists>msg. refreshAccessToken env w =
          (Inr False,
           \<lparr>store = (store w)\<lparr>accessToken := None, isAuthenticated := False,
                               isLoading := False, error := Some msg\<rparr>,
            requests = requests w @ [PostRefresh]\<rparr>))"
  by (cases w)
    (auto simp: js_defs refresh_try_def refresh_catch_def refreshAccessToken_def
      split: sum.splits json_data.splits option.splits)


lemma refresh_sends: "sent_by (refreshAccessToken env) w = [PostRefresh]"
  using refresh_cases [of env w] by (auto simp: sent_by_def)

subsection \<open>Refresh\<close>



subsection \<open>Validation\<close>

text \<open>
  C3: in every state whose access token is \<^verbatim>\<open>null\<close>, \<^verbatim>\<open>validateToken()\<close> is
  \<^verbatim>\<open>refreshAccessToken()\<close>: the same returned boolean, the same resulting state, and the
  only request sent is the refresh request, so no validation request is made.
\<close>

theorem validate_without_token_is_refresh:
  "accessToken (store w) = None \<Longrightarrow>
     validateToken env w = refreshAccessToken env w
     \<and> result_of (validateToken env) w = result_of (refreshAccessToken env) w
     \<and> state_after (validateToken env) w = state_after (refreshAccessToken env) w
     \<and> sent_by (validateToken env) w = [PostRefresh]"
proof -
  assume a: "accessToken (store w) = None"
  have e: "validateToken env w = refreshAccessToken env w"
    using a by (simp add: validateToken_def and_then_def get_state_def)
  show ?thesis
    using e refresh_sends [of env w] by (simp add: result_of_def state_after_def sent_by_def)
qed

text \<open>The empty session, validated against a remote side that grants a refresh.\<close>

theorem validate_without_token_is_refresh_witness:
  "accessToken (store world_empty) = None
   \<and> validateToken remote_expired world_empty = refreshAccessToken remote_expired world_empty
   \<and> result_of (validateToken remote_expired) world_empty = Inr True
   \<and> accessToken (state_after (validateToken remote_expired) world_empty) = Some ''xyz''
   \<and> sent_by (validateToken remote_expired) world_empty = [PostRefresh]"
  using validate_without_token_is_refresh [of world_empty remote_expired]
  by (simp add: example_defs js_defs store_defs)


lemma validate_empty_string_token_refreshes:
  "accessToken (store w) = Some [] \<Longrightarrow>
     validateToken env w = refreshAccessToken env w
     \<and> sent_by (validateToken env) w = [PostRefresh]"
  using refresh_sends [of env w]
  by (simp add: validateToken_def and_then_def get_state_def truthy_def sent_by_def)



text \<open>
  C8: the session holds the access token \<^verbatim>\<open>abc\<close>, the validate endpoint answers 401
  and the refresh endpoint answers with success and the body \<^verbatim>\<open>{accessToken: "xyz"}\<close>.
  Then \<^verbatim>\<open>validateToken()\<close> sends the validation request, then the refresh request (it
  continues as \<^verbatim>\<open>refreshAccessToken()\<close> on the state it has reached), returns \<open>True\<close>,
  and the final state has the access token \<^verbatim>\<open>xyz\<close> and is authenticated.
\<close>

theorem validate_unauthorized_then_refresh:
  "accessToken (store w) = Some ''abc'' \<Longrightarrow>
   validate_reply env ''abc'' = Inr r \<Longrightarrow> status r = 401 \<Longrightarrow>
   refresh_reply env = Inr r' \<Longrightarrow> ok r' \<Longrightarrow> json r' = Inr (JValue (Some ''xyz'')) \<Longrightarrow>
     result_of (validateToken env) w = Inr True
     \<and> accessToken (state_after (validateToken env) w) = Some ''xyz''
     \<and> isAuthenticated (state_after (validateToken env) w) = True
     \<and> sent_by (validateToken env) w = [PostValidate ''abc'', PostRefresh]
     \<and> validateToken env w =
         refreshAccessToken env
           (w\<lparr>store := (store w)\<lparr>isLoading := True\<rparr>,
              requests := requests w @ [PostValidate ''abc'']\<rparr>)"
  by (simp add: js_defs store_defs)

text \<open>Signed in with token \<^verbatim>\<open>abc\<close>, against the remote side of the scenario.\<close>

theorem validate_unauthorized_then_refresh_witness:
  "accessToken (store (world_logged_in ''abc'')) = Some ''abc''
   \<and> validate_reply remote_expired ''abc'' = Inr (response_status 401)
   \<and> status (response_status 401) = 401
   \<and> refresh_reply remote_expired = Inr (response_token ''xyz'')
   \<and> ok (response_token ''xyz'')
   \<and> json (response_token ''xyz'') = Inr (JValue (Some ''xyz''))
   \<and> result_of (validateToken remote_expired) (world_logged_in ''abc'') = Inr True
   \<and> accessToken (state_after (validateToken remote_expired) (world_logged_in ''abc'')) = Some ''xyz''
   \<and> isAuthenticated (state_after (validateToken remote_expired) (world_logged_in ''abc''))"
  using validate_unauthorized_then_refresh
    [of "world_logged_in ''abc''" remote_expired "response_status 401" "response_token ''xyz''"]
  by (simp add: example_defs js_defs store_defs)

subsection \<open>Truthiness of the token\<close>

text \<open>
  C10: \<^verbatim>\<open>setAccessToken(token)\<close> stores the token and sets \<^verbatim>\<open>isAuthenticated\<close> to the
  truthiness of the token: true for every non-empty token, false for the empty string,
  which is stored all the same. \<^verbatim>\<open>login(token, user)\<close> sets \<^verbatim>\<open>isAuthenticated\<close> to
  true whatever the token is, the empty string included.
\<close>

theorem setAccessToken_truthiness_login_unconditional:
  "(token \<noteq> [] \<longrightarrow>
      accessToken (state_after (setAccessToken token) w) = Some token
      \<and> isAuthenticated (state_after (setAccessToken token) w) = True)
   \<and> accessToken (state_after (setAccessToken []) w) = Some []
   \<and> isAuthenticated (state_after (setAccessToken []) w) = False
   \<and> isAuthenticated (state_after (setAccessToken token) w) = (token \<noteq> [])
   \<and> state_after (setAccessToken token) w
       = (store w)\<lparr>accessToken := Some token, isAuthenticated := (token \<noteq> []), error := None\<rparr>
   \<and> isAuthenticated (state_after (login token u) w) = True
   \<and> accessToken (state_after (login [] u) w) = Some []
   \<and> isAuthenticated (state_after (login [] u) w) = True"
  by (simp add: js_defs setAccessToken_def login_def truthy_def)

text \<open>The token \<^verbatim>\<open>abc\<close> on the empty session.\<close>

theorem setAccessToken_truthiness_login_unconditional_witness:
  "''abc'' \<noteq> []
   \<and> accessToken (state_after (setAccessToken ''abc'') world_empty) = Some ''abc''
   \<and> isAuthenticated (state_after (setAccessToken ''abc'') world_empty) = True
   \<and> isAuthenticated (state_after (setAccessToken []) world_empty) = False
   \<and> isAuthenticated (state_after (login [] user_example) world_empty) = True"
  using setAccessToken_truthiness_login_unconditional [of "''abc''" world_empty user_example]
  by simp

subsection \<open>Failure outcomes\<close>

lemma refresh_outcomes:
  "(\<exists>token. refresh_delivers env token
       \<and> result_of (refreshAccessToken env) w = Inr True
       \<and> state_after (refreshAccessToken env) w = session_restored (store w) token)
   \<or> ((\<forall>token. \<not> refresh_delivers env token)
       \<and> (\<exists>msg. result_of (refreshAccessToken env) w = Inr False
             \<and> state_after (refreshAccessToken env) w = session_cleared (store w) msg))"
  by (cases w)
    (auto simp: js_defs refresh_try_def refresh_catch_def refreshAccessToken_def
      session_restored_def session_cleared_def refresh_delivers_def
      split: sum.splits json_data.splits option.splits)

lemma validate_cases:
  "(validation_succeeds env (store w) \<and> result_of (validateToken env) w = Inr True
       \<and> state_after (validateToken env) w = (store w)\<lparr>isLoading := False\<rparr>)
   \<or> (\<not> validation_succeeds env (store w) \<and>
       (\<exists>token. refresh_delivers env token
          \<and> result_of (validateToken env) w = Inr True
          \<and> state_after (validateToken env) w = session_restored (store w) token))
   \<or> (\<not> validation_succeeds env (store w) \<and> (\<forall>token. \<not> refresh_delivers env token) \<and>
       (\<exists>msg. result_of (validateToken env) w = Inr False
          \<and> state_after (validateToken env) w = session_cleared (store w) msg))"
  by (cases w)
    (auto simp: js_defs store_defs validation_succeeds_def session_restored_def
      session_cleared_def refresh_delivers_def
      split: option.splits sum.splits json_data.splits)

lemma validate_never_throws: "\<exists>b. result_of (validateToken env) w = Inr b"
  using validate_cases [of env w] by auto

text \<open>
  C2, as the code has it: \<^verbatim>\<open>refreshAccessToken()\<close> always, and \<^verbatim>\<open>validateToken()\<close> whenever
  the validation itself does not succeed (no token, network failure, rejected token), ends
  in one of two states. When the refresh endpoint answers with success and a truthy
  \<^verbatim>\<open>accessToken\<close>: that token stored, authenticated, not loading, no error, with \<open>True\<close>
  returned. Otherwise: no token, not authenticated, not loading, an error message
  recorded, with \<open>False\<close> returned. In both the user is the one the session had before:
  the session is not reset to the empty state.
\<close>

theorem failure_outcomes_keep_user:
  "((\<exists>token. refresh_delivers env token
        \<and> result_of (refreshAccessToken env) w = Inr True
        \<and> state_after (refreshAccessToken env) w = session_restored (store w) token)
    \<or> ((\<forall>token. \<not> refresh_delivers env token)
        \<and> (\<exists>msg. result_of (refreshAccessToken env) w = Inr False
              \<and> state_after (refreshAccessToken env) w = session_cleared (store w) msg)))
   \<and> (\<not> validation_succeeds env (store w) \<longrightarrow>
        (\<exists>token. refresh_delivers env token
           \<and> result_of (validateToken env) w = Inr True
           \<and> state_after (validateToken env) w = session_restored (store w) token)
        \<or> ((\<forall>token. \<not> refresh_delivers env token)
           \<and> (\<exists>msg. result_of (validateToken env) w = Inr False
                 \<and> state_after (validateToken env) w = session_cleared (store w) msg)))
   \<and> session_restored (store w) token' =
       (store w)\<lparr>accessToken := Some token', isAuthenticated := True, isLoading := False,
                  error := None\<rparr>
   \<and> session_cleared (store w) msg' =
       (store w)\<lparr>accessToken := None, isAuthenticated := False, isLoading := False,
                  error := Some msg'\<rparr>
   \<and> user (session_restored (store w) token') = user (store w)
   \<and> user (session_cleared (store w) msg') = user (store w)"
proof (intro conjI)
  show "(\<exists>token. refresh_delivers env token
        \<and> result_of (refreshAccessToken env) w = Inr True
        \<and> state_after (refreshAccessToken env) w = session_restored (store w) token)
    \<or> ((\<forall>token. \<not> refresh_delivers env token)
        \<and> (\<exists>msg. result_of (refreshAccessToken env) w = Inr False
              \<and> state_after (refreshAccessToken env) w = session_cleared (store w) msg))"
    by (rule refresh_outcomes)
next
  show "\<not> validation_succeeds env (store w) \<longrightarrow>
        (\<exists>token. refresh_delivers env token
           \<and> result_of (validateToken env) w = Inr True
           \<and> state_after (validateToken env) w = session_restored (store w) token)
        \<or> ((\<forall>token. \<not> refresh_delivers env token)
           \<and> (\<exists>msg. result_of (validateToken env) w = Inr False
                 \<and> state_after (validateToken env) w = session_cleared (store w) msg))"
    using validate_cases [of env w] by blast
next
  show "session_restored (store w) token' =
       (store w)\<lparr>accessToken := Some token', isAuthenticated := True, isLoading := False,
                  error := None\<rparr>"
    by (simp add: session_restored_def)
next
  show "session_cleared (store w) msg' =
       (store w)\<lparr>accessToken := None, isAuthenticated := False, isLoading := False,
                  error := Some msg'\<rparr>"
    by (simp add: session_cleared_def)
next
  show "user (session_restored (store w) token') = user (store w)"
    by (simp add: session_restored_def)
next
  show "user (session_cleared (store w) msg') = user (store w)"
    by (simp add: session_cleared_def)
qed

text \<open>
  Signed in with token \<^verbatim>\<open>abc\<close>: validated with the network down, the token is cleared;
  validated against a remote side that answers 401 and then grants the refresh token
  \<^verbatim>\<open>xyz\<close>, that token is stored. The user stays in both.
\<close>

theorem failure_outcomes_keep_user_witness:
  "\<not> validation_succeeds remote_offline (store (world_logged_in ''abc''))
   \<and> (\<forall>token. \<not> refresh_delivers remote_offline token)
   \<and> result_of (validateToken remote_offline) (world_logged_in ''abc'') = Inr False
   \<and> (\<exists>msg. state_after (validateToken remote_offline) (world_logged_in ''abc'')
               = session_cleared (store (world_logged_in ''abc'')) msg)
   \<and> user (state_after (validateToken remote_offline) (world_logged_in ''abc''))
       = Some user_example
   \<and> \<not> validation_succeeds remote_expired (store (world_logged_in ''abc''))
   \<and> refresh_delivers remote_expired ''xyz''
   \<and> result_of (validateToken remote_expired) (world_logged_in ''abc'') = Inr True
   \<and> state_after (validateToken remote_expired) (world_logged_in ''abc'')
       = session_restored (store (world_logged_in ''abc'')) ''xyz''
   \<and> accessToken (state_after (validateToken remote_expired) (world_logged_in ''abc''))
       = Some ''xyz''
   \<and> user (state_after (validateToken remote_expired) (world_logged_in ''abc''))
       = Some user_example"
proof -
  let ?w = "world_logged_in ''abc''"
  have usr: "user (store ?w) = Some user_example"
    by (simp add: world_logged_in_def world_empty_def login_def js_defs)
  have bad: "\<not> validation_succeeds remote_offline (store ?w)"
    by (simp add: validation_succeeds_def example_defs js_defs store_defs)
  have none: "\<forall>token. \<not> refresh_delivers remote_offline token"
    by (simp add: refresh_delivers_def example_defs)
  from failure_outcomes_keep_user [of remote_offline ?w "[]" "[]"] bad none
  have cleared: "\<exists>msg. result_of (validateToken remote_offline) ?w = Inr False
      \<and> state_after (validateToken remote_offline) ?w = session_cleared (store ?w) msg"
    by blast
  then have kept: "user (state_after (validateToken remote_offline) ?w) = Some user_example"
    using usr by (auto simp: session_cleared_def)
  have bad': "\<not> validation_succeeds remote_expired (store ?w)"
    by (simp add: validation_succeeds_def example_defs js_defs store_defs)
  have some: "refresh_delivers remote_expired ''xyz''"
    by (simp add: refresh_delivers_def example_defs ok_def truthy_def)
  have only: "\<forall>token. refresh_delivers remote_expired token \<longrightarrow> token = ''xyz''"
    by (simp add: refresh_delivers_def example_defs)
  from failure_outcomes_keep_user [of remote_expired ?w "[]" "[]"] bad' some
  have "\<exists>token. refresh_delivers remote_expired token
      \<and> result_of (validateToken remote_expired) ?w = Inr True
      \<and> state_after (validateToken remote_expired) ?w = session_restored (store ?w) token"
    by blast
  then have restored: "result_of (validateToken remote_expired) ?w = Inr True
      \<and> state_after (validateToken remote_expired) ?w = session_restored (store ?w) ''xyz''"
    using only by blast
  then have kept': "accessToken (state_after (validateToken remote_expired) ?w) = Some ''xyz''
      \<and> user (state_after (validateToken remote_expired) ?w) = Some user_example"
    using usr by (simp add: session_restored_def)
  show ?thesis
    using bad none cleared kept bad' some restored kept' by blast
qed

text \<open>
  C2 as stated, at a signed-in session and a network that is down: the refresh fails and
  the token is cleared, but the user stays, so the state is not the empty session with a
  message. The same holds for \<^verbatim>\<open>validateToken()\<close>.
\<close>

theorem refresh_failure_keeps_user_counterexample:
  "refresh_reply remote_offline = Inl network_error
   \<and> result_of (refreshAccessToken remote_offline) (world_logged_in ''abc'') = Inr False
   \<and> accessToken (state_after (refreshAccessToken remote_offline) (world_logged_in ''abc'')) = None
   \<and> user (state_after (refreshAccessToken remote_offline) (world_logged_in ''abc''))
       = Some user_example
   \<and> user (state_after (refreshAccessToken remote_offline) (world_logged_in ''abc''))
       \<noteq> user initialState
   \<and> state_after (refreshAccessToken remote_offline) (world_logged_in ''abc'')
       \<noteq> session_reset ''Failed to fetch''
   \<and> result_of (validateToken remote_offline) (world_logged_in ''abc'') = Inr False
   \<and> accessToken (state_after (validateToken remote_offline) (world_logged_in ''abc'')) = None
   \<and> user (state_after (validateToken remote_offline) (world_logged_in ''abc''))
       \<noteq> user initialState"
  by (simp add: session_reset_def example_defs js_defs store_defs)

subsection \<open>The invariant\<close>

lemma refresh_invariant: "token_invariant (state_after (refreshAccessToken env) w)"
  using refresh_outcomes [of env w]
  by (auto simp: token_invariant_def session_restored_def session_cleared_def)

lemma validate_invariant:
  "token_invariant (store w) \<Longrightarrow> token_invariant (state_after (validateToken env) w)"
  using validate_cases [of env w]
  by (auto simp: token_invariant_def session_restored_def session_cleared_def)

lemma perform_invariant:
  "token_invariant (store w) \<Longrightarrow> token_invariant (store (perform env a w))"
proof (cases a)
  case RefreshAccessToken
  then show ?thesis using refresh_invariant [of env w] by (simp add: state_after_def)
next
  case ValidateToken
  assume "token_invariant (store w)"
  then show ?thesis
    using ValidateToken validate_invariant [of w env] by (simp add: state_after_def)
qed (auto simp: token_invariant_def js_defs setAccessToken_def setUser_def login_def
    logout_def clearError_def setError_def setLoading_def initialState_def)

lemma run_actions_invariant:
  "token_invariant (store w) \<Longrightarrow> token_invariant (store (run_actions as w))"
  by (induction as arbitrary: w) (auto simp: perform_invariant)

lemma perform_clearing:
  "accessToken (store (perform env a w)) = None \<Longrightarrow> accessToken (store w) \<noteq> None \<Longrightarrow>
   \<not> isAuthenticated (store (perform env a w))"
proof (cases a)
  case RefreshAccessToken
  assume "accessToken (store (perform env a w)) = None"
  then show ?thesis
    using RefreshAccessToken refresh_outcomes [of env w]
    by (auto simp: state_after_def session_restored_def session_cleared_def)
next
  case ValidateToken
  assume "accessToken (store (perform env a w)) = None" "accessToken (store w) \<noteq> None"
  then show ?thesis
    using ValidateToken validate_cases [of env w]
    by (auto simp: state_after_def session_restored_def session_cleared_def)
qed (auto simp: js_defs setAccessToken_def setUser_def login_def
    logout_def clearError_def setError_def setLoading_def initialState_def)

text \<open>
  C6: \<^verbatim>\<open>isAuthenticated\<close> implies that an access token is held. This holds in the initial
  state, every operation of the store preserves it, so it holds after every run of
  operations from the empty session; and an operation that takes the access token from
  present to \<^verbatim>\<open>null\<close> leaves \<^verbatim>\<open>isAuthenticated\<close> false.
\<close>

theorem authenticated_only_with_token:
  "token_invariant initialState
   \<and> (token_invariant (store w) \<longrightarrow> token_invariant (store (perform env a w)))
   \<and> token_invariant (store (run_actions as world_empty))
   \<and> (accessToken (store w) \<noteq> None \<and> accessToken (store (perform env a w)) = None \<longrightarrow>
        \<not> isAuthenticated (store (perform env a w)))"
proof (intro conjI)
  show init: "token_invariant initialState"
    by (simp add: token_invariant_def initialState_def)
  show "token_invariant (store w) \<longrightarrow> token_invariant (store (perform env a w))"
    by (simp add: perform_invariant)
  show "token_invariant (store (run_actions as world_empty))"
    using init by (simp add: run_actions_invariant world_empty_def)
  show "accessToken (store w) \<noteq> None \<and> accessToken (store (perform env a w)) = None \<longrightarrow>
        \<not> isAuthenticated (store (perform env a w))"
    using perform_clearing [of env a w] by blast
qed

text \<open>Signed in with token \<^verbatim>\<open>abc\<close>, then a refresh with the network down.\<close>

theorem authenticated_only_with_token_witness:
  "isAuthenticated (store (world_logged_in ''abc''))
   \<and> accessToken (store (world_logged_in ''abc'')) \<noteq> None
   \<and> token_invariant (store (world_logged_in ''abc''))
   \<and> accessToken (store (perform remote_offline RefreshAccessToken (world_logged_in ''abc''))) = None
   \<and> \<not> isAuthenticated (store (perform remote_offline RefreshAccessToken (world_logged_in ''abc'')))
   \<and> token_invariant (store (perform remote_offline RefreshAccessToken (world_logged_in ''abc'')))
   \<and> run_actions [(remote_offline, Login ''abc'' user_example)] world_empty = world_logged_in ''abc''
   \<and> token_invariant (store (run_actions [(remote_offline, Login ''abc'' user_example)] world_empty))"
proof -
  have before: "isAuthenticated (store (world_logged_in ''abc''))
     \<and> accessToken (store (world_logged_in ''abc'')) \<noteq> None
     \<and> token_invariant (store (world_logged_in ''abc''))"
    by (simp add: token_invariant_def example_defs js_defs store_defs)
  have cleared:
    "accessToken (store (perform remote_offline RefreshAccessToken (world_logged_in ''abc''))) = None"
    by (simp add: example_defs js_defs store_defs)
  have same: "run_actions [(remote_offline, Login ''abc'' user_example)] world_empty
      = world_logged_in ''abc''"
    by (simp add: world_logged_in_def)
  note t = authenticated_only_with_token
    [of "world_logged_in ''abc''" remote_offline RefreshAccessToken
        "[(remote_offline, Login ''abc'' user_example)]"]
  from t before have "token_invariant (store (perform remote_offline RefreshAccessToken (world_logged_in ''abc'')))"
    by blast
  moreover from t before cleared
  have "\<not> isAuthenticated (store (perform remote_offline RefreshAccessToken (world_logged_in ''abc'')))"
    by blast
  moreover from t have "token_invariant (store (run_actions [(remote_offline, Login ''abc'' user_example)] world_empty))"
    by blast
  ultimately show ?thesis using before cleared same by blast
qed

subsection \<open>Login and logout\<close>

text \<open>
  C4: from every starting state, for every token and user, \<^verbatim>\<open>login(token, user)\<close>
  followed by \<^verbatim>\<open>logout()\<close> leaves the initial empty state: no token, no user, not
  authenticated, not loading, no error.
\<close>

theorem login_then_logout_is_initial:
  "state_after (seq (login token u) logout) w = initialState
   \<and> accessToken (state_after (seq (login token u) logout) w) = None
   \<and> user (state_after (seq (login token u) logout) w) = None
   \<and> isAuthenticated (state_after (seq (login token u) logout) w) = False
   \<and> isLoading (state_after (seq (login token u) logout) w) = False
   \<and> error (state_after (seq (login token u) logout) w) = None"
  by (simp add: js_defs login_def logout_def initialState_def)

text \<open>
  C5: \<^verbatim>\<open>logout()\<close> is idempotent on the session state: from every starting state, two
  calls in a row leave the same state as one call, and that state is the empty one.
\<close>

theorem logout_idempotent:
  "state_after (seq logout logout) w = state_after logout w
   \<and> state_after logout w = initialState"
  by (simp add: js_defs logout_def initialState_def)

section \<open>Properties of the scheduler\<close>

lemmas provider_defs =
  setInterval_def clearInterval_def call_validateToken_def effect_validate_def
  effect_interval_def interval_callback_def run_cleanup_def commit_def render_def

lemma render_match: "timers_match sys \<Longrightarrow> timers_match (render env sys)"
  by (auto simp: timers_match_def provider_defs split: option.splits)

lemma render_mounted: "mounted (render env sys) = mounted sys"
  by (auto simp: provider_defs split: option.splits)

lemma render_rendered:
  "mounted sys \<Longrightarrow> rendered (render env sys) = Some (isAuthenticated (store (session sys)))"
  by (auto simp: provider_defs split: option.splits)

lemma render_session:
  "session (render env sys) = session sys
   \<or> (isAuthenticated (store (session sys)) \<and> rendered (render env sys) = Some True)"
  by (auto simp: provider_defs split: option.splits)

lemma rerender_invariant:
  assumes "timers_match sys"
  shows "scheduler_invariant (rerender env sys)"
proof -
  let ?one = "render env sys"
  have m1: "timers_match ?one" using assms by (rule render_match)
  have m2: "timers_match (render env ?one)" using m1 by (rule render_match)
  show ?thesis
  proof (cases "mounted sys")
    case False
    then show ?thesis
      using assms by (simp add: scheduler_invariant_def rerender_def render_def)
  next
    case True
    then have mo: "mounted ?one" by (simp add: render_mounted)
    have r2: "rendered (render env ?one) = Some (isAuthenticated (store (session ?one)))"
      using mo by (rule render_rendered)
    have "session (render env ?one) = session ?one"
    proof (cases "isAuthenticated (store (session ?one))")
      case False
      then show ?thesis by (auto simp: provider_defs split: option.splits)
    next
      case auth: True
      have "rendered ?one = Some True"
      proof -
        from render_session [of env sys] show ?thesis
        proof
          assume "session ?one = session sys"
          then show ?thesis using auth render_rendered [OF True, of env] by simp
        next
          assume "isAuthenticated (store (session sys)) \<and> rendered ?one = Some True"
          then show ?thesis by simp
        qed
      qed
      then show ?thesis using auth mo by (simp add: render_def commit_def)
    qed
    then show ?thesis
      using m2 r2 by (simp add: scheduler_invariant_def rerender_def)
  qed
qed


lemma step_invariant:
  assumes "scheduler_invariant sys"
  shows "scheduler_invariant (step env e sys)"
proof (cases e)
  case Mount
  show ?thesis
  proof (cases "mounted sys")
    case True
    then show ?thesis using assms Mount by (simp add: mount_def)
  next
    case False
    then have "timers_match (sys\<lparr>mounted := True, rendered := None, cleanup := None\<rparr>)"
      using assms by (auto simp: scheduler_invariant_def timers_match_def)
    then show ?thesis
      using False Mount by (simp add: mount_def rerender_invariant)
  qed
next
  case Unmount
  then show ?thesis
    using assms
    by (auto simp: scheduler_invariant_def timers_match_def unmount_def run_cleanup_def
        clearInterval_def split: option.splits)
next
  case (Act a)
  have "timers_match (sys\<lparr>session := perform env a (session sys)\<rparr>)"
    using assms by (simp add: scheduler_invariant_def timers_match_def)
  then show ?thesis using Act by (simp add: rerender_invariant)
next
  case (Tick h)
  have "timers_match (interval_callback env sys)"
    using assms
    by (simp add: scheduler_invariant_def timers_match_def interval_callback_def
        call_validateToken_def)
  then show ?thesis using Tick assms by (simp add: rerender_invariant)
qed

lemma boot_invariant: "scheduler_invariant (boot s)"
  by (simp add: scheduler_invariant_def timers_match_def boot_def)

lemma run_events_invariant:
  "scheduler_invariant sys \<Longrightarrow> scheduler_invariant (run_events evs sys)"
  by (induction evs arbitrary: sys) (auto simp: step_invariant)

lemma idle_no_timer:
  assumes "scheduler_invariant sys"
    and "\<not> isAuthenticated (store (session sys)) \<or> \<not> mounted sys"
  shows "active (timers sys) = []" and "cleanup sys = None"
  using assms by (auto simp: scheduler_invariant_def timers_match_def)

lemma idle_tick:
  assumes "scheduler_invariant sys"
    and "\<not> isAuthenticated (store (session sys)) \<or> \<not> mounted sys"
  shows "step env (Tick h) sys = sys"
  using idle_no_timer(1) [OF assms] by simp

lemma idle_ticks:
  assumes "scheduler_invariant sys"
    and "\<not> isAuthenticated (store (session sys)) \<or> \<not> mounted sys"
  shows "run_events (ticks hs) sys = sys"
proof (induction hs)
  case Nil
  show ?case by (simp add: ticks_def)
next
  case (Cons x hs)
  obtain env h where x: "x = (env, h)" by (cases x)
  have "run_events (ticks (x # hs)) sys = run_events (ticks hs) (step env (Tick h) sys)"
    using x by (simp add: ticks_def)
  then show ?case using Cons idle_tick [OF assms, of env h] by simp
qed

lemma idle_no_new_timer:
  assumes inv: "scheduler_invariant sys"
    and idle: "\<not> isAuthenticated (store (session sys))"
    and stays: "\<forall>a. e = Act a \<longrightarrow> \<not> isAuthenticated (store (perform env a (session sys)))"
  shows "timers (step env e sys) = timers sys"
proof (cases e)
  case Mount
  then show ?thesis
    using inv idle
    by (auto simp: scheduler_invariant_def timers_match_def mount_def rerender_def
        provider_defs split: option.splits)
next
  case Unmount
  then show ?thesis
    using idle_no_timer(2) [OF inv] idle by (simp add: unmount_def run_cleanup_def)
next
  case (Act a)
  then show ?thesis
    using inv idle stays
    by (auto simp: scheduler_invariant_def timers_match_def rerender_def
        provider_defs split: option.splits)
next
  case (Tick h)
  then show ?thesis using idle_tick [OF inv, of env h] idle by simp
qed

lemma one_timer:
  assumes "scheduler_invariant sys"
  shows "active (timers sys) = [] \<or> (\<exists>h. active (timers sys) = [(h, 3000000)])"
  using assms
  by (auto simp: scheduler_invariant_def timers_match_def interval_ms_def split: option.splits)

lemma logout_unauthenticated:
  "\<not> isAuthenticated (store (session (step env (Act Logout) sys)))"
  by (auto simp: rerender_def provider_defs logout_def js_defs initialState_def
      split: option.splits)

lemma unmount_unmounted: "\<not> mounted (step env Unmount sys)"
  by (auto simp: unmount_def)

text \<open>
  C9: in every state the application reaches from its start, by any events against any
  remote sides: when the session is not authenticated or the provider is not mounted, no
  interval is set, a tick calls nothing and changes nothing, and so does any sequence of
  ticks; in particular no interval is set after \<^verbatim>\<open>logout()\<close> and after an unmount. From
  an unauthenticated state, an event that leaves the session unauthenticated leaves the
  browser's timers untouched: no interval is created. At most one interval is set at any
  time, and its period is 50 minutes.
\<close>

theorem timer_only_while_authenticated:
  assumes reach: "sys = run_events evs (boot s)"
  shows "(\<not> isAuthenticated (store (session sys)) \<or> \<not> mounted sys \<longrightarrow>
            active (timers sys) = []
            \<and> step env (Tick h) sys = sys
            \<and> run_events (ticks hs) sys = sys
            \<and> calls (run_events (ticks hs) sys) = calls sys)
         \<and> active (timers (step env (Act Logout) sys)) = []
         \<and> active (timers (step env Unmount sys)) = []
         \<and> (\<not> isAuthenticated (store (session sys))
              \<and> (\<forall>a. e = Act a \<longrightarrow> \<not> isAuthenticated (store (perform env a (session sys))))
            \<longrightarrow> timers (step env e sys) = timers sys)
         \<and> (active (timers sys) = [] \<or> (\<exists>i. active (timers sys) = [(i, 3000000)]))
         \<and> interval_ms = 3000000"
proof -
  have inv: "scheduler_invariant sys"
    using reach by (simp add: run_events_invariant boot_invariant)
  have idle: "\<not> isAuthenticated (store (session sys)) \<or> \<not> mounted sys \<longrightarrow>
            active (timers sys) = []
            \<and> step env (Tick h) sys = sys
            \<and> run_events (ticks hs) sys = sys
            \<and> calls (run_events (ticks hs) sys) = calls sys"
    using idle_no_timer(1) [OF inv] idle_tick [OF inv] idle_ticks [OF inv] by simp
  have out: "active (timers (step env (Act Logout) sys)) = []"
    using idle_no_timer(1) [OF step_invariant [OF inv, of env "Act Logout"]]
      logout_unauthenticated [of env sys] by blast
  have un: "active (timers (step env Unmount sys)) = []"
    using idle_no_timer(1) [OF step_invariant [OF inv, of env Unmount]]
      unmount_unmounted [of env sys] by blast
  have new: "\<not> isAuthenticated (store (session sys))
              \<and> (\<forall>a. e = Act a \<longrightarrow> \<not> isAuthenticated (store (perform env a (session sys))))
            \<longrightarrow> timers (step env e sys) = timers sys"
    using idle_no_new_timer [OF inv] by blast
  show ?thesis
    using idle out un new one_timer [OF inv] by (simp add: interval_ms_def)
qed

lemmas run_defs =
  events_sign_in_out_def events_sign_in_def boot_def mount_def unmount_def rerender_def
  provider_defs example_defs js_defs store_defs interval_ms_def ticks_def

lemma signed_in_run:
  "run_events events_sign_in (boot initialState) =
     \<lparr>session = \<lparr>store = store (world_logged_in ''abc''), requests = [PostValidate ''abc'']\<rparr>,
      timers = \<lparr>next_handle = 1, active = [(0, 3000000)]\<rparr>,
      mounted = True, rendered = Some True, cleanup = Some 0, calls = [FromEffect]\<rparr>"
  by (simp add: run_defs)

lemma signed_in_tick:
  "calls (step remote_valid (Tick 0) (run_events events_sign_in (boot initialState)))
     = [FromEffect, FromTimer]"
  by (simp add: signed_in_run) (simp add: run_defs)

text \<open>
  Mount, sign in (the interval is set and a tick validates), then sign out: the interval
  is gone and ticks call nothing.
\<close>

theorem timer_only_while_authenticated_witness:
  "isAuthenticated (store (session (run_events events_sign_in (boot initialState))))
   \<and> mounted (run_events events_sign_in (boot initialState))
   \<and> active (timers (run_events events_sign_in (boot initialState))) = [(0, 3000000)]
   \<and> calls (step remote_valid (Tick 0) (run_events events_sign_in (boot initialState)))
       = [FromEffect, FromTimer]
   \<and> run_events events_sign_in_out (boot initialState)
       = step remote_valid (Act Logout) (run_events events_sign_in (boot initialState))
   \<and> \<not> isAuthenticated (store (session (run_events events_sign_in_out (boot initialState))))
   \<and> active (timers (run_events events_sign_in_out (boot initialState))) = []
   \<and> step remote_valid (Tick 0) (run_events events_sign_in_out (boot initialState))
       = run_events events_sign_in_out (boot initialState)
   \<and> calls (run_events (ticks [(remote_valid, 0), (remote_expired, 0)])
         (run_events events_sign_in_out (boot initialState))) = [FromEffect]
   \<and> active (timers (step remote_valid Unmount (run_events events_sign_in (boot initialState)))) = []
   \<and> timers (step remote_offline (Act ValidateToken)
         (run_events events_sign_in_out (boot initialState)))
       = timers (run_events events_sign_in_out (boot initialState))"
proof -
  let ?on = "run_events events_sign_in (boot initialState)"
  let ?off = "run_events events_sign_in_out (boot initialState)"
  have on: "isAuthenticated (store (session ?on)) \<and> mounted ?on
      \<and> active (timers ?on) = [(0, 3000000)]"
    by (simp add: signed_in_run) (simp add: run_defs)
  have off_step: "?off = step remote_valid (Act Logout) ?on"
    by (simp add: events_sign_in_out_def events_sign_in_def)
  have off: "\<not> isAuthenticated (store (session ?off))"
    by (simp add: off_step signed_in_run) (simp add: run_defs)
  have calls_off: "calls ?off = [FromEffect]"
    by (simp add: off_step signed_in_run) (simp add: run_defs)
  have stays: "\<forall>a. Act ValidateToken = Act a \<longrightarrow>
      \<not> isAuthenticated (store (perform remote_offline a (session ?off)))"
    by (simp add: off_step signed_in_run) (simp add: run_defs)
  note idle = timer_only_while_authenticated
    [of ?off events_sign_in_out initialState remote_valid 0
        "[(remote_valid, 0), (remote_expired, 0)]" "Act ValidateToken", OF refl]
  note busy = timer_only_while_authenticated
    [of ?on events_sign_in initialState remote_valid 0 "[]" Mount, OF refl]
  note quiet = timer_only_while_authenticated
    [of ?off events_sign_in_out initialState remote_offline 0 "[]" "Act ValidateToken",
     OF refl]
  from idle off have a: "active (timers ?off) = []
      \<and> step remote_valid (Tick 0) ?off = ?off
      \<and> calls (run_events (ticks [(remote_valid, 0), (remote_expired, 0)]) ?off) = calls ?off"
    by blast
  from busy have b: "active (timers (step remote_valid Unmount ?on)) = []"
    by blast
  from quiet off stays
  have c: "timers (step remote_offline (Act ValidateToken) ?off) = timers ?off"
    by blast
  show ?thesis
    using on signed_in_tick off_step off a b c calls_off by simp
qed

end
